theory Spec2Isabelle
  imports Main
begin

section \<open>JavaScript string primitives used by the middleware\<close>

text \<open>
  Strings are lists of 8-bit characters; a character stands for the code point of the
  same number (header values, host names and path names of a request are of this kind).
  \<open>None\<close> stands for \<open>null\<close>/\<open>undefined\<close>.
\<close>

definition startsWith :: "string \<Rightarrow> string \<Rightarrow> bool" where
  "startsWith s p = (take (length p) s = p)"

definition endsWith :: "string \<Rightarrow> string \<Rightarrow> bool" where
  "endsWith s p = (length p \<le> length s \<and> drop (length s - length p) s = p)"

fun includes_str :: "string \<Rightarrow> string \<Rightarrow> bool" where
  "includes_str [] p = (p = [])"
| "includes_str (c # s) p = (startsWith (c # s) p \<or> includes_str s p)"

text \<open>\<open>s.split(sep)\<close> for a separator of one character: never the empty list.\<close>

fun split :: "char \<Rightarrow> string \<Rightarrow> string list" where
  "split sep [] = [[]]"
| "split sep (c # s) =
     (if c = sep then [] # split sep s
      else (case split sep s of [] \<Rightarrow> [[c]] | h # t \<Rightarrow> (c # h) # t))"

text \<open>\<open>s.trim()\<close>: the white space and line terminators below code point 256.\<close>

definition isWhiteSpace :: "char \<Rightarrow> bool" where
  "isWhiteSpace c = ((of_char c :: nat) \<in> {9, 10, 11, 12, 13, 32, 160})"

definition trim :: "string \<Rightarrow> string" where
  "trim s = rev (dropWhile isWhiteSpace (rev (dropWhile isWhiteSpace s)))"

text \<open>Truthiness of a \<open>string | null\<close> value, and the operator \<open>a || b\<close> on such values.\<close>

fun truthy :: "string option \<Rightarrow> bool" where
  "truthy None = False"
| "truthy (Some s) = (s \<noteq> [])"

definition or_else :: "string option \<Rightarrow> string option \<Rightarrow> string option" where
  "or_else a b = (if truthy a then a else b)"

text \<open>A value interpolated into a template literal: \<open>undefined\<close> prints as its name.\<close>

fun interpolate :: "string option \<Rightarrow> string" where
  "interpolate None = ''undefined''"
| "interpolate (Some s) = s"

subsection \<open>Percent-encoding: \<open>encodeURI\<close> and \<open>encodeURIComponent\<close>\<close>

text \<open>
  Both leave the characters of their unescaped sets and write every other code point as
  the percent-escaped bytes of its UTF-8 form. They throw only on a lone surrogate, which
  a string of code points below 256 does not have.
\<close>

definition hexDigit :: "nat \<Rightarrow> char" where
  "hexDigit n = ''0123456789ABCDEF'' ! (n mod 16)"

definition percentByte :: "nat \<Rightarrow> string" where
  "percentByte b = [CHR ''%'', hexDigit (b div 16), hexDigit b]"

text \<open>The UTF-8 bytes of a code point below 256.\<close>

definition utf8 :: "char \<Rightarrow> nat list" where
  "utf8 c = (let n = (of_char c :: nat) in
     if n < 128 then [n] else [192 + n div 64, 128 + n mod 64])"

definition percentEncode :: "char \<Rightarrow> string" where
  "percentEncode c = concat (map percentByte (utf8 c))"

definition alphanumeric :: "char \<Rightarrow> bool" where
  "alphanumeric c =
     (c \<in> set ''abcdefghijklmnopqrstuvwxyzABCDEFGHIJKLMNOPQRSTUVWXYZ0123456789'')"

definition uriUnescaped :: "char \<Rightarrow> bool" where
  "uriUnescaped c = (alphanumeric c \<or> c \<in> set ''-_.!~*()'' \<or> c = CHR 0x27)"

definition uriReserved :: "char \<Rightarrow> bool" where
  "uriReserved c = (c \<in> set '';/?:@&=+$,'')"

definition encodeURI :: "string \<Rightarrow> string" where
  "encodeURI s = concat (map (\<lambda>c.
     if uriUnescaped c \<or> uriReserved c \<or> c = CHR ''#'' then [c] else percentEncode c) s)"

definition encodeURIComponent :: "string \<Rightarrow> string" where
  "encodeURIComponent s = concat (map (\<lambda>c.
     if uriUnescaped c then [c] else percentEncode c) s)"

section \<open>URL records\<close>

datatype url_path = Opaque string | Segments "string list"

record URL =
  url_scheme :: string
  url_username :: string
  url_password :: string
  url_host :: "string option"
  url_port :: "nat option"
  url_path :: url_path
  url_query :: "string option"
  url_fragment :: "string option"

fun decimal :: "nat \<Rightarrow> string" where
  "decimal n = (if n < 10 then [hexDigit n] else decimal (n div 10) @ [hexDigit (n mod 10)])"

declare decimal.simps [simp del]

definition isSpecial :: "string \<Rightarrow> bool" where
  "isSpecial s = (s \<in> set [''http'', ''https'', ''ftp'', ''ws'', ''wss'', ''file''])"

definition protocol :: "URL \<Rightarrow> string" where
  "protocol u = url_scheme u @ '':''"

definition host :: "URL \<Rightarrow> string" where
  "host u = (case url_host u of None \<Rightarrow> []
     | Some h \<Rightarrow> (case url_port u of None \<Rightarrow> h | Some p \<Rightarrow> h @ '':'' @ decimal p))"

definition origin :: "URL \<Rightarrow> string" where
  "origin u = (if url_scheme u \<in> set [''http'', ''https'', ''ftp'', ''ws'', ''wss'']
     then url_scheme u @ ''://'' @ host u else ''null'')"

definition pathname :: "URL \<Rightarrow> string" where
  "pathname u = (case url_path u of Opaque p \<Rightarrow> p
     | Segments segs \<Rightarrow> concat (map (\<lambda>s. CHR ''/'' # s) segs))"

definition href :: "URL \<Rightarrow> string" where
  "href u =
     url_scheme u @ '':'' @
     (case url_host u of
        None \<Rightarrow> (case url_path u of
                   Segments (s # t # r) \<Rightarrow> (if s = [] then ''/.'' else [])
                 | _ \<Rightarrow> [])
      | Some h \<Rightarrow> ''//'' @
          (if url_username u = [] \<and> url_password u = [] then []
           else url_username u @
                (if url_password u = [] then [] else '':'' @ url_password u) @ ''@'') @
          host u) @
     pathname u @
     (case url_query u of None \<Rightarrow> [] | Some q \<Rightarrow> CHR ''?'' # q) @
     (case url_fragment u of None \<Rightarrow> [] | Some f \<Rightarrow> CHR ''#'' # f)"

section \<open>Requests and client context\<close>

record NextRequest =
  url :: URL
  headers :: "string \<Rightarrow> string option"
  searchParams :: "(string \<times> string) list"

definition getIpAddress :: "NextRequest \<Rightarrow> string option" where
  "getIpAddress request =
     (let forwardedFor = headers request ''x-forwarded-for'' in
      if truthy forwardedFor
      then (case forwardedFor of
              None \<Rightarrow> None
            | Some f \<Rightarrow> (case split CHR '','' f of
                          [] \<Rightarrow> None
                        | first # _ \<Rightarrow> Some (trim first)))
      else
        let realIp = headers request ''x-real-ip'' in
        if truthy realIp then realIp
        else
          let cfConnectingIp = headers request ''cf-connecting-ip'' in
          if truthy cfConnectingIp then cfConnectingIp
          else None)"

record geolocation =
  country :: "string option"
  city :: "string option"

definition getGeolocation :: "NextRequest \<Rightarrow> geolocation" where
  "getGeolocation request =
     (let cfCountry = headers request ''cf-ipcountry'';
          cfCity = headers request ''cf-ipcity'';
          awsCountry = headers request ''cloudfront-viewer-country'';
          awsCity = headers request ''cloudfront-viewer-city'';
          geoCountry = headers request ''x-geo-country'';
          geoCity = headers request ''x-geo-city''
      in \<lparr> country = or_else (or_else (or_else cfCountry awsCountry) geoCountry) None,
           city = or_else (or_else (or_else cfCity awsCity) geoCity) None \<rparr>)"

section \<open>The URL parser of the platform\<close>

text \<open>
  \<open>parseURL input base\<close> follows the URL parser of the WHATWG URL standard, which
  \<open>new URL(input, base)\<close> runs; \<open>None\<close> is the parser's failure, on which the constructor
  throws a \<open>TypeError\<close>. It covers the states of the parser for inputs whose host is a
  registrable name in lower or upper case letters, digits, hyphens and dots. Outside the
  model, where it fails although the standard may not: a host in brackets (IPv6), a host
  with a percent sign or a code point above 127 (which the standard decodes and converts),
  a host that ends in a number (an IPv4 address, which the standard normalises), a relative
  input against a \<open>file\<close> base, and the drive letters of \<open>file\<close> URLs. The handler is
  stated over every parser (the field \<open>new_URL\<close> of the platform below); this one is
  used to run it on concrete inputs.
\<close>

definition c0ControlOrSpace :: "char \<Rightarrow> bool" where
  "c0ControlOrSpace c = ((of_char c :: nat) \<le> 32)"

definition tabOrNewline :: "char \<Rightarrow> bool" where
  "tabOrNewline c = ((of_char c :: nat) \<in> {9, 10, 13})"

definition preprocess :: "string \<Rightarrow> string" where
  "preprocess s = filter (\<lambda>c. \<not> tabOrNewline c)
     (rev (dropWhile c0ControlOrSpace (rev (dropWhile c0ControlOrSpace s))))"

definition asciiAlpha :: "char \<Rightarrow> bool" where
  "asciiAlpha c = (c \<in> set ''abcdefghijklmnopqrstuvwxyzABCDEFGHIJKLMNOPQRSTUVWXYZ'')"

definition asciiDigit :: "char \<Rightarrow> bool" where
  "asciiDigit c = (c \<in> set ''0123456789'')"

definition toLower :: "char \<Rightarrow> char" where
  "toLower c = (case map_of (zip ''ABCDEFGHIJKLMNOPQRSTUVWXYZ'' ''abcdefghijklmnopqrstuvwxyz'') c
     of None \<Rightarrow> c | Some l \<Rightarrow> l)"

definition schemeChar :: "char \<Rightarrow> bool" where
  "schemeChar c = (alphanumeric c \<or> c \<in> set ''+-.'')"

text \<open>Scheme start state and scheme state: the lower-case scheme and what follows the colon.\<close>

definition takeScheme :: "string \<Rightarrow> (string \<times> string) option" where
  "takeScheme s =
     (case s of
        [] \<Rightarrow> None
      | c # _ \<Rightarrow>
          if \<not> asciiAlpha c then None
          else (case dropWhile schemeChar s of
                  [] \<Rightarrow> None
                | d # rest \<Rightarrow> if d = CHR '':'' then Some (map toLower (takeWhile schemeChar s), rest)
                             else None))"

subsection \<open>Percent-encode sets\<close>

definition c0ControlSet :: "char \<Rightarrow> bool" where
  "c0ControlSet c = ((of_char c :: nat) \<le> 31 \<or> (of_char c :: nat) > 126)"

definition fragmentSet :: "char \<Rightarrow> bool" where
  "fragmentSet c = (c0ControlSet c \<or> c \<in> set '' <>'' \<or> c = CHR 0x22 \<or> c = CHR 0x60)"

definition querySet :: "char \<Rightarrow> bool" where
  "querySet c = (c0ControlSet c \<or> c \<in> set '' #<>'' \<or> c = CHR 0x22)"

definition specialQuerySet :: "char \<Rightarrow> bool" where
  "specialQuerySet c = (querySet c \<or> c = CHR 0x27)"

definition pathSet :: "char \<Rightarrow> bool" where
  "pathSet c = (querySet c \<or> c \<in> set ''?^{}'' \<or> c = CHR 0x60)"

definition userinfoSet :: "char \<Rightarrow> bool" where
  "userinfoSet c = (pathSet c \<or> c \<in> set ''/:;=@[]|'' \<or> c = CHR 0x5C)"

definition encodeWith :: "(char \<Rightarrow> bool) \<Rightarrow> string \<Rightarrow> string" where
  "encodeWith inSet s = concat (map (\<lambda>c. if inSet c then percentEncode c else [c]) s)"

subsection \<open>Path, query and fragment states\<close>

definition isSlash :: "bool \<Rightarrow> char \<Rightarrow> bool" where
  "isSlash special c = (c = CHR ''/'' \<or> (special \<and> c = CHR 0x5C))"

fun pieces :: "(char \<Rightarrow> bool) \<Rightarrow> string \<Rightarrow> string list" where
  "pieces sep [] = [[]]"
| "pieces sep (c # s) =
     (if sep c then [] # pieces sep s
      else (case pieces sep s of [] \<Rightarrow> [[c]] | h # t \<Rightarrow> (c # h) # t))"

definition singleDot :: "string \<Rightarrow> bool" where
  "singleDot seg = (map toLower seg \<in> set [''.'', ''%2e''])"

definition doubleDot :: "string \<Rightarrow> bool" where
  "doubleDot seg = (map toLower seg \<in> set [''..'', ''.%2e'', ''%2e.'', ''%2e%2e''])"

text \<open>
  Path state: the segments already in the path, then the segments of the input in turn;
  the last one ends at the end of the path, the others at a slash.
\<close>

fun pathState :: "string list \<Rightarrow> string list \<Rightarrow> string list" where
  "pathState path [] = path"
| "pathState path [seg] =
     (if doubleDot seg then butlast path @ [[]]
      else if singleDot seg then path @ [[]]
      else path @ [seg])"
| "pathState path (seg # segs) =
     pathState (if doubleDot seg then butlast path
                else if singleDot seg then path
                else path @ [seg]) segs"

definition notQueryOrFragment :: "char \<Rightarrow> bool" where
  "notQueryOrFragment c = (c \<noteq> CHR ''?'' \<and> c \<noteq> CHR ''#'')"

definition fragmentState :: "string \<Rightarrow> string option" where
  "fragmentState s = (case s of [] \<Rightarrow> None | _ # f \<Rightarrow> Some (encodeWith fragmentSet f))"

text \<open>What follows the path: nothing, \<open>?query\<close>, \<open>#fragment\<close> or both.\<close>

definition queryState :: "bool \<Rightarrow> string \<Rightarrow> string option \<times> string option" where
  "queryState special s =
     (case s of
        [] \<Rightarrow> (None, None)
      | c # t \<Rightarrow>
          if c = CHR ''?''
          then (Some (encodeWith (if special then specialQuerySet else querySet)
                        (takeWhile (\<lambda>d. d \<noteq> CHR ''#'') t)),
                fragmentState (dropWhile (\<lambda>d. d \<noteq> CHR ''#'') t))
          else (None, Some (encodeWith fragmentSet t)))"

definition segmentsOf :: "bool \<Rightarrow> string list \<Rightarrow> string \<Rightarrow> string list" where
  "segmentsOf special path s =
     pathState path (map (encodeWith pathSet)
       (pieces (isSlash special) (takeWhile notQueryOrFragment s)))"

text \<open>Path start state, after an authority: \<open>s\<close> is empty or starts with a slash, ? or #.\<close>

definition pathStartState :: "bool \<Rightarrow> string \<Rightarrow> string list" where
  "pathStartState special s =
     (case s of
        [] \<Rightarrow> (if special then [[]] else [])
      | c # t \<Rightarrow>
          if isSlash special c then segmentsOf special [] t
          else if special then segmentsOf special [] s
          else [])"

subsection \<open>Authority, host and port states\<close>

definition forbiddenHost :: "char \<Rightarrow> bool" where
  "forbiddenHost c = ((of_char c :: nat) \<in> {0, 9, 10, 13} \<or> c \<in> set '' #/:<>?@[]^|''
     \<or> c = CHR 0x5C)"

definition forbiddenDomain :: "char \<Rightarrow> bool" where
  "forbiddenDomain c = (forbiddenHost c \<or> (of_char c :: nat) \<le> 31 \<or> c = CHR ''%''
     \<or> (of_char c :: nat) \<ge> 127)"

definition endsInNumber :: "string \<Rightarrow> bool" where
  "endsInNumber h =
     (let parts = split CHR ''.'' h;
          parts' = (if last parts = [] \<and> length parts > 1 then butlast parts else parts);
          l = last parts'
      in l \<noteq> [] \<and> (list_all asciiDigit l \<or>
           (startsWith (map toLower l) ''0x'' \<and>
            list_all (\<lambda>c. c \<in> set ''0123456789abcdef'') (drop 2 (map toLower l)))))"

definition hostParser :: "bool \<Rightarrow> string \<Rightarrow> string option" where
  "hostParser special h =
     (if special
      then (if h = [] \<or> list_ex forbiddenDomain h \<or> endsInNumber h then None
            else Some (map toLower h))
      else (if list_ex forbiddenHost h then None else Some (encodeWith c0ControlSet h)))"

definition defaultPort :: "string \<Rightarrow> nat option" where
  "defaultPort sch = map_of [(''http'', 80), (''https'', 443), (''ftp'', 21), (''ws'', 80),
     (''wss'', 443)] sch"

definition digitValue :: "char \<Rightarrow> nat" where
  "digitValue c = (of_char c :: nat) - 48"

definition portState :: "string \<Rightarrow> string \<Rightarrow> nat option option" where
  "portState sch digits =
     (if \<not> list_all asciiDigit digits then None
      else if digits = [] then Some None
      else (let n = foldl (\<lambda>a d. 10 * a + digitValue d) 0 digits in
            if n > 65535 then None
            else if defaultPort sch = Some n then Some None
            else Some (Some n)))"

definition authorityEnd :: "bool \<Rightarrow> char \<Rightarrow> bool" where
  "authorityEnd special c = (isSlash special c \<or> c = CHR ''?'' \<or> c = CHR ''#'')"

definition authorityState :: "string \<Rightarrow> string \<Rightarrow> URL option" where
  "authorityState sch s =
     (let special = isSpecial sch;
          auth = takeWhile (\<lambda>c. \<not> authorityEnd special c) s;
          rest = dropWhile (\<lambda>c. \<not> authorityEnd special c) s;
          atSignSeen = (CHR ''@'' \<in> set auth);
          userinfo = (if atSignSeen
                      then rev (drop 1 (dropWhile (\<lambda>c. c \<noteq> CHR ''@'') (rev auth)))
                      else []);
          hostport = rev (takeWhile (\<lambda>c. c \<noteq> CHR ''@'') (rev auth));
          name = takeWhile (\<lambda>c. c \<noteq> CHR '':'') hostport;
          afterName = dropWhile (\<lambda>c. c \<noteq> CHR '':'') hostport
      in if atSignSeen \<and> hostport = [] then None
         else if afterName \<noteq> [] \<and> name = [] then None
         else if special \<and> name = [] then None
         else (case (if name = [] then Some [] else hostParser special name) of
                 None \<Rightarrow> None
               | Some h \<Rightarrow>
                   (case portState sch (drop 1 afterName) of
                      None \<Rightarrow> None
                    | Some p \<Rightarrow>
                        Some \<lparr> url_scheme = sch,
                               url_username = encodeWith userinfoSet
                                 (takeWhile (\<lambda>c. c \<noteq> CHR '':'') userinfo),
                               url_password = encodeWith userinfoSet
                                 (drop 1 (dropWhile (\<lambda>c. c \<noteq> CHR '':'') userinfo)),
                               url_host = Some h,
                               url_port = p,
                               url_path = Segments (pathStartState special rest),
                               url_query = fst (queryState special
                                 (dropWhile notQueryOrFragment rest)),
                               url_fragment = snd (queryState special
                                 (dropWhile notQueryOrFragment rest)) \<rparr>)))"

subsection \<open>Relative, file and opaque path states\<close>

definition relativeState :: "URL \<Rightarrow> string \<Rightarrow> URL option" where
  "relativeState base s =
     (let special = isSpecial (url_scheme base);
          after = dropWhile notQueryOrFragment s
      in case s of
           [] \<Rightarrow> Some (base \<lparr> url_fragment := None \<rparr>)
         | c # t \<Rightarrow>
             if isSlash special c
             then (case t of
                     [] \<Rightarrow> Some (base \<lparr> url_path := Segments (segmentsOf special [] t),
                                       url_query := None, url_fragment := None \<rparr>)
                   | d # t' \<Rightarrow>
                       if isSlash special d
                       then authorityState (url_scheme base)
                              (if special then dropWhile (isSlash True) t' else t')
                       else Some (base \<lparr> url_path := Segments (segmentsOf special [] t),
                                         url_query := fst (queryState special after),
                                         url_fragment := snd (queryState special after) \<rparr>))
             else if c = CHR ''?''
             then Some (base \<lparr> url_query := fst (queryState special s),
                               url_fragment := snd (queryState special s) \<rparr>)
             else if c = CHR ''#''
             then Some (base \<lparr> url_fragment := snd (queryState special s) \<rparr>)
             else (case url_path base of
                     Opaque _ \<Rightarrow> None
                   | Segments path \<Rightarrow>
                       Some (base \<lparr> url_path := Segments (segmentsOf special (butlast path) s),
                                    url_query := fst (queryState special after),
                                    url_fragment := snd (queryState special after) \<rparr>)))"

definition fileState :: "string \<Rightarrow> URL option" where
  "fileState s =
     (let after = dropWhile notQueryOrFragment s;
          u = \<lparr> url_scheme = ''file'', url_username = [], url_password = [],
                url_host = Some [], url_port = None, url_path = Segments [],
                url_query = fst (queryState True after),
                url_fragment = snd (queryState True after) \<rparr>
      in case s of
           c # d # t \<Rightarrow>
             if isSlash True c \<and> isSlash True d
             then (let name = takeWhile (\<lambda>e. \<not> authorityEnd True e) t;
                       rest = dropWhile (\<lambda>e. \<not> authorityEnd True e) t
                   in if name = [] then Some (u \<lparr> url_path := Segments (pathStartState True rest) \<rparr>)
                      else (case hostParser True name of
                              None \<Rightarrow> None
                            | Some h \<Rightarrow>
                                Some (u \<lparr> url_host := Some (if h = ''localhost'' then [] else h),
                                         url_path := Segments (pathStartState True rest) \<rparr>)))
             else if isSlash True c
             then Some (u \<lparr> url_path := Segments (segmentsOf True [] (d # t)) \<rparr>)
             else Some (u \<lparr> url_path := Segments (segmentsOf True [] s) \<rparr>)
         | [c] \<Rightarrow> Some (u \<lparr> url_path := Segments (segmentsOf True [] (if isSlash True c then [] else s)) \<rparr>)
         | [] \<Rightarrow> Some (u \<lparr> url_path := Segments (segmentsOf True [] s) \<rparr>))"

definition noAuthority :: "string \<Rightarrow> url_path \<Rightarrow> string \<Rightarrow> URL" where
  "noAuthority sch p after =
     \<lparr> url_scheme = sch, url_username = [], url_password = [], url_host = None,
       url_port = None, url_path = p,
       url_query = fst (queryState False after), url_fragment = snd (queryState False after) \<rparr>"

definition parseURL :: "string \<Rightarrow> URL option \<Rightarrow> URL option" where
  "parseURL input base =
     (let s = preprocess input in
      case takeScheme s of
        Some (sch, rest) \<Rightarrow>
          if sch = ''file'' then fileState rest
          else if isSpecial sch
          then (case base of
                  None \<Rightarrow> authorityState sch (dropWhile (isSlash True) rest)
                | Some b \<Rightarrow>
                    if url_scheme b = sch \<and> \<not> startsWith rest ''//''
                    then relativeState b rest
                    else authorityState sch (dropWhile (isSlash True) rest))
          else if startsWith rest ''//'' then authorityState sch (drop 2 rest)
          else if startsWith rest ''/''
          then Some (noAuthority sch (Segments (segmentsOf False [] (drop 1 rest)))
                       (dropWhile notQueryOrFragment rest))
          else Some (noAuthority sch
                       (Opaque (encodeWith c0ControlSet (takeWhile notQueryOrFragment rest)))
                       (dropWhile notQueryOrFragment rest))
      | None \<Rightarrow>
          (case base of
             None \<Rightarrow> None
           | Some b \<Rightarrow>
               (case url_path b of
                  Opaque _ \<Rightarrow>
                    (if startsWith s ''#''
                     then Some (b \<lparr> url_fragment := snd (queryState False s) \<rparr>)
                     else None)
                | Segments _ \<Rightarrow>
                    if url_scheme b = ''file'' then None else relativeState b s)))"

section \<open>The platform\<close>

text \<open>
  What the handler calls and does not define: Clerk's \<open>createRouteMatcher\<close>, the
  helpers \<open>isBot\<close> (of \<open>@/lib/utils/is-bot\<close>) and \<open>getCountryContinentCode\<close> (of
  \<open>@/lib/countries\<close>), the variable \<open>process.env.NODE_ENV\<close>, the constructor
  \<open>new URL(input, base)\<close> (\<open>None\<close> when it throws) and the network behind \<open>fetch\<close>.
  They are the fields of a record, so that a theorem about every platform is a theorem
  about the real one.
\<close>

text \<open>
  The resolver's answer: the fetch is rejected, or there is a response with a status and
  a body. A body that is JSON is an object of the resolver's contract, with the optional
  fields \<open>url\<close> (a string) and \<open>cloaking\<close> (a boolean).
\<close>

record ResolutionResult =
  data_url :: "string option"
  cloaking :: "bool option"

datatype body = NotJson | Json ResolutionResult

datatype fetch_outcome = Rejected | Response nat body

record fetch_request =
  fetch_url :: string
  fetch_user_agent :: string
  fetch_referer :: string


record platform =
  createRouteMatcher :: "string list \<Rightarrow> NextRequest \<Rightarrow> bool"
  isBot :: "string \<Rightarrow> bool"
  getCountryContinentCode :: "string \<Rightarrow> string"
  NODE_ENV :: "string option"
  new_URL :: "string \<Rightarrow> URL option \<Rightarrow> URL option"
  fetch :: "fetch_request \<Rightarrow> fetch_outcome"

definition isProtectedRoute :: "platform \<Rightarrow> NextRequest \<Rightarrow> bool" where
  "isProtectedRoute env = createRouteMatcher env [''/dashboard(.*)'']"

definition ok :: "nat \<Rightarrow> bool" where
  "ok status = (200 \<le> status \<and> status \<le> 299)"

section \<open>The handler \<open>resolveLinkAndLogAnalytics\<close>\<close>

subsection \<open>Eligibility (lines 65 to 73)\<close>

definition shouldSkip :: "string \<Rightarrow> bool" where
  "shouldSkip path =
     (path = ''/'' \<or>
      startsWith path ''/api/'' \<or>
      startsWith path ''/dashboard'' \<or>
      startsWith path ''/_next/'' \<or>
      startsWith path ''/cloaked/'' \<or>
      endsWith path ''.png'' \<or>
      endsWith path ''.ico'' \<or>
      length (split CHR ''/'' path) > 2)"

subsection \<open>Client context (lines 86 to 96)\<close>

record ClientContext =
  ctx_ip :: "string option"
  ctx_country :: string
  ctx_city :: string
  ctx_continent :: string

text \<open>\<open>a || "literal"\<close>: the literal is not empty, so the result is a string.\<close>

fun or_default :: "string option \<Rightarrow> string \<Rightarrow> string" where
  "or_default None d = d"
| "or_default (Some s) d = (if s \<noteq> [] then s else d)"

definition isLocalhost :: "string \<Rightarrow> bool" where
  "isLocalhost h = (includes_str h ''localhost'' \<or> includes_str h ''127.0.0.1'')"

definition clientContext :: "platform \<Rightarrow> NextRequest \<Rightarrow> ClientContext" where
  "clientContext env request =
     (let geo = getGeolocation request;
          ip = getIpAddress request;
          local = isLocalhost (host (url request));
          simCountry = map_of (searchParams request) ''geo'';
          country = or_default (or_else simCountry (country geo))
                      (if local then ''US'' else ''Unknown'');
          city = or_default (city geo) (if local then ''San Francisco'' else ''Unknown'');
          continent = (if country \<noteq> [] \<and> country \<noteq> ''Unknown''
                       then getCountryContinentCode env country
                       else (if local then ''NA'' else ''Unknown''))
      in \<lparr> ctx_ip = ip, ctx_country = country, ctx_city = city,
           ctx_continent = continent \<rparr>)"

subsection \<open>The outbound request (lines 99 to 113)\<close>

definition internalOrigin :: "platform \<Rightarrow> NextRequest \<Rightarrow> string" where
  "internalOrigin env request =
     (if NODE_ENV env = Some ''production'' then ''http://localhost:3000''
      else origin (url request))"

definition resolverRequest :: "platform \<Rightarrow> NextRequest \<Rightarrow> fetch_request" where
  "resolverRequest env request =
     (let ctx = clientContext env request;
          userAgent = headers request ''user-agent'';
          referer = headers request ''referer''
      in \<lparr> fetch_url = encodeURI
             (internalOrigin env request @ ''/api/link?domain='' @ host (url request) @
              ''&alias='' @ pathname (url request) @
              ''&country='' @ ctx_country ctx @
              ''&city='' @ ctx_city ctx @
              ''&continent='' @ ctx_continent ctx @
              ''&ip='' @ interpolate (ctx_ip ctx)),
           fetch_user_agent = (case userAgent of None \<Rightarrow> [] | Some a \<Rightarrow> a),
           fetch_referer = (case referer of None \<Rightarrow> [] | Some r \<Rightarrow> r) \<rparr>)"

subsection \<open>Dispatch on the resolver's answer (lines 115 to 158)\<close>

text \<open>
  The handler returns \<open>undefined\<close> (\<open>None\<close>), \<open>NextResponse.next()\<close>, a redirect or a
  rewrite, or it throws: \<open>fetch\<close> rejects, \<open>response.json()\<close> throws on a body that is not
  JSON, \<open>new URL\<close> throws outside a \<open>try\<close>.
\<close>

datatype NextResponse = Next | Redirect string | Rewrite URL

datatype exn = FetchFailed | JsonSyntaxError | InvalidURL

type_synonym outcome = "exn + NextResponse option"

definition respond :: "platform \<Rightarrow> NextRequest \<Rightarrow> ResolutionResult \<Rightarrow> string \<Rightarrow> outcome" where
  "respond env request data redirectUrl =
     (if cloaking data = Some True
      then (let encodedUrl = encodeURIComponent redirectUrl in
            case new_URL env (''/cloaked/'' @ encodedUrl) (Some (url request)) of
              None \<Rightarrow> Inl InvalidURL
            | Some target \<Rightarrow> Inr (Some (Rewrite target)))
      else Inr (Some (Redirect redirectUrl)))"

definition dispatch :: "platform \<Rightarrow> NextRequest \<Rightarrow> fetch_outcome \<Rightarrow> outcome" where
  "dispatch env request result =
     (case result of
        Rejected \<Rightarrow> Inl FetchFailed
      | Response status b \<Rightarrow>
          if \<not> ok status then Inr (Some Next)
          else (case b of
            NotJson \<Rightarrow> Inl JsonSyntaxError
          | Json data \<Rightarrow>
              if \<not> truthy (data_url data) then Inr (Some Next)
              else (let target = interpolate (data_url data) in
                case new_URL env target (Some (url request)) of
                  Some parsedUrl \<Rightarrow>
                    if protocol parsedUrl \<noteq> ''http:'' \<and> protocol parsedUrl \<noteq> ''https:''
                    then Inr (Some Next)
                    else respond env request data (href parsedUrl)
                | None \<Rightarrow>
                    (case new_URL env (''https://'' @ target) None of
                       Some fallbackUrl \<Rightarrow>
                         if protocol fallbackUrl \<noteq> ''https:'' then Inr (Some Next)
                         else respond env request data (href fallbackUrl)
                     | None \<Rightarrow> Inr (Some Next)))))"

subsection \<open>The whole handler (lines 58 to 159)\<close>

text \<open>The result is the list of the outbound requests issued and the outcome.\<close>

definition resolveLinkAndLogAnalytics ::
    "platform \<Rightarrow> NextRequest \<Rightarrow> fetch_request list \<times> outcome" where
  "resolveLinkAndLogAnalytics env request =
     (if isProtectedRoute env request then ([], Inr None)
      else if shouldSkip (pathname (url request)) then ([], Inr (Some Next))
      else
        let userAgent = headers request ''user-agent'' in
        if truthy userAgent \<and> isBot env (interpolate userAgent) then ([], Inr (Some Next))
        else
          let call = resolverRequest env request in
          ([call], dispatch env request (fetch env call)))"

text \<open>
  \<open>Continue\<close> of the spec: the request is served as it came. A middleware that returns
  \<open>undefined\<close> passes the request on as \<open>NextResponse.next()\<close> does.
\<close>

definition Continue :: "outcome \<Rightarrow> bool" where
  "Continue r = (r = Inr None \<or> r = Inr (Some Next))"

text \<open>The path of a rewrite, when the outcome is one.\<close>

fun rewritePath :: "outcome \<Rightarrow> string option" where
  "rewritePath (Inr (Some (Rewrite target))) = Some (pathname target)"
| "rewritePath _ = None"

subsection \<open>An example platform and example requests\<close>

text \<open>
  To run the handler on concrete inputs: the URL parser above, a route matcher that takes
  a pattern \<open>prefix(.*)\<close> for the paths that start with \<open>prefix\<close>, a bot test and a
  continent table with a few entries, no \<open>NODE_ENV\<close>, and a network that gives the same
  answer to every request.
\<close>

definition routeMatcher :: "string list \<Rightarrow> NextRequest \<Rightarrow> bool" where
  "routeMatcher patterns request =
     list_ex (\<lambda>p. endsWith p ''(.*)'' \<and>
                  startsWith (pathname (url request)) (take (length p - 4) p)) patterns"

definition examplePlatform :: "fetch_outcome \<Rightarrow> platform" where
  "examplePlatform answer =
     \<lparr> createRouteMatcher = routeMatcher,
       isBot = (\<lambda>userAgent. includes_str (map toLower userAgent) ''bot''),
       getCountryContinentCode = (\<lambda>c.
         case map_of [(''FR'', ''EU''), (''US'', ''NA''), (''GH'', ''AF'')] c of
           None \<Rightarrow> ''Unknown'' | Some k \<Rightarrow> k),
       NODE_ENV = None,
       new_URL = parseURL,
       fetch = (\<lambda>call. answer) \<rparr>"

text \<open>
  The request \<open>GET https://name/seg/...?k=v&...\<close> with the given headers; the
  parameters are plain text that needs no escaping.
\<close>

definition exampleRequest ::
    "string \<Rightarrow> string list \<Rightarrow> (string \<times> string) list \<Rightarrow> (string \<times> string) list \<Rightarrow> NextRequest" where
  "exampleRequest name segs params hdrs =
     \<lparr> url = \<lparr> url_scheme = ''https'', url_username = [], url_password = [],
               url_host = Some name, url_port = None, url_path = Segments segs,
               url_query = (if params = [] then None
                            else Some (drop 1 (concat (map (\<lambda>(k, v). ''&'' @ k @ ''='' @ v)
                                                        params)))),
               url_fragment = None \<rparr>,
       headers = map_of hdrs,
       searchParams = params \<rparr>"

text \<open>\<open>GET https://ishortn.ink/abc\<close> without headers, and a resolver that answers 200 with \<open>data\<close>.\<close>

definition aliasRequest :: NextRequest where
  "aliasRequest = exampleRequest ''ishortn.ink'' [''abc''] [] []"

definition answering :: "ResolutionResult \<Rightarrow> platform" where
  "answering data = examplePlatform (Response 200 (Json data))"

section \<open>The database singletons (\<open>server/db/index.ts\<close>)\<close>

text \<open>
  The module holds \<open>_connection\<close> and \<open>_db\<close>, both \<open>null\<close> at load. The state below
  adds the pools that \<open>mysql.createPool\<close> has created and the clients that \<open>drizzle\<close>
  has created, in order of creation; an instance is its index there, and a client
  records the pool it was made from. \<open>createPool\<close> and \<open>drizzle\<close> return at once
  (they are not awaited), so an access runs to its end before the next one starts.
\<close>

record pool_config =
  uri :: string
  connectionLimit :: nat

record db_module =
  pools :: "pool_config list"
  clients :: "nat list"
  the_connection :: "nat option"
  the_db :: "nat option"

definition initial :: db_module where
  "initial = \<lparr> pools = [], clients = [], the_connection = None, the_db = None \<rparr>"

definition getConnection :: "string \<Rightarrow> db_module \<Rightarrow> nat \<times> db_module" where
  "getConnection DATABASE_URL m =
     (case the_connection m of
        None \<Rightarrow>
          (let created = length (pools m) in
           (created, m \<lparr> pools := pools m @ [\<lparr> uri = DATABASE_URL, connectionLimit = 20 \<rparr>],
                         the_connection := Some created \<rparr>))
      | Some c \<Rightarrow> (c, m))"

definition getDb :: "string \<Rightarrow> db_module \<Rightarrow> nat \<times> db_module" where
  "getDb DATABASE_URL m =
     (case the_db m of
        None \<Rightarrow>
          (let (c, m') = getConnection DATABASE_URL m;
               created = length (clients m')
           in (created, m' \<lparr> clients := clients m' @ [c], the_db := Some created \<rparr>))
      | Some d \<Rightarrow> (d, m))"

text \<open>
  A read of a property of the exported \<open>connection\<close> or \<open>db\<close> runs the \<open>get\<close> trap of
  the proxy; what is observed is the instance whose property is returned.
\<close>

datatype access = ConnectionGet string | DbGet string

datatype observed = PoolInstance nat | ClientInstance nat

fun proxyGet :: "string \<Rightarrow> access \<Rightarrow> db_module \<Rightarrow> observed \<times> db_module" where
  "proxyGet DATABASE_URL (ConnectionGet property) m =
     (let (c, m') = getConnection DATABASE_URL m in (PoolInstance c, m'))"
| "proxyGet DATABASE_URL (DbGet property) m =
     (let (d, m') = getDb DATABASE_URL m in (ClientInstance d, m'))"

fun run :: "string \<Rightarrow> access list \<Rightarrow> db_module \<Rightarrow> observed list \<times> db_module" where
  "run DATABASE_URL [] m = ([], m)"
| "run DATABASE_URL (a # as) m =
     (let (seen, m') = proxyGet DATABASE_URL a m;
          (rest, m'') = run DATABASE_URL as m'
      in (seen # rest, m''))"

definition isDbGet :: "access \<Rightarrow> bool" where
  "isDbGet a = (case a of DbGet _ \<Rightarrow> True | ConnectionGet _ \<Rightarrow> False)"

subsection \<open>The states the module can reach\<close>

text \<open>
  Either nothing has been created, or the one pool has index 0; a client, when there is
  one, has index 0 and was made from that pool.
\<close>

definition consistent :: "db_module \<Rightarrow> bool" where
  "consistent m =
     ((the_connection m = None \<and> pools m = [] \<or>
       the_connection m = Some 0 \<and> length (pools m) = 1) \<and>
      (the_db m = None \<and> clients m = [] \<or>
       the_db m = Some 0 \<and> clients m = [0] \<and> the_connection m = Some 0))"

definition expected :: "access \<Rightarrow> observed" where
  "expected a = (case a of ConnectionGet _ \<Rightarrow> PoolInstance 0 | DbGet _ \<Rightarrow> ClientInstance 0)"

definition poolsAfter :: "string \<Rightarrow> db_module \<Rightarrow> access list \<Rightarrow> pool_config list" where
  "poolsAfter u m as =
     (if as = [] \<or> the_connection m = Some 0 then pools m
      else [\<lparr> uri = u, connectionLimit = 20 \<rparr>])"

definition clientsAfter :: "db_module \<Rightarrow> access list \<Rightarrow> nat list" where
  "clientsAfter m as = (if list_ex isDbGet as \<or> the_db m = Some 0 then [0] else [])"

section \<open>Properties\<close>

subsection \<open>String primitives\<close>

lemma startsWith_iff: "startsWith s p \<longleftrightarrow> (\<exists>r. s = p @ r)"
  unfolding startsWith_def by (metis append_eq_conv_conj append_take_drop_id)

lemma endsWith_iff: "endsWith s p \<longleftrightarrow> (\<exists>r. s = r @ p)"
proof
  assume "endsWith s p"
  then have "drop (length s - length p) s = p" by (simp add: endsWith_def)
  then have "s = take (length s - length p) s @ p" by (metis append_take_drop_id)
  then show "\<exists>r. s = r @ p" ..
next
  assume "\<exists>r. s = r @ p"
  then obtain r where "s = r @ p" ..
  then show "endsWith s p" by (simp add: endsWith_def)
qed

lemma split_not_Nil: "split c s \<noteq> []"
  by (induction s) (auto split: list.splits)

text \<open>A string splits into one part more than it has separators.\<close>

lemma length_split: "length (split c s) = Suc (length (filter (\<lambda>x. x = c) s))"
  by (induction s) (auto split: list.splits simp: split_not_Nil)

lemma split_no_sep:
  "c \<notin> set s \<Longrightarrow>
   split c (s @ t) = (case split c t of [] \<Rightarrow> [s] | h # r \<Rightarrow> (s @ h) # r)"
  by (induction s) (auto split: list.splits simp: split_not_Nil)

lemma split_trailing:
  "CHR ''/'' \<notin> set seg \<Longrightarrow> split CHR ''/'' (''/'' @ seg @ ''/'') = [[], seg, []]"
  using split_no_sep [of "CHR ''/''" seg "''/''"] by simp

subsection \<open>Eligibility\<close>

lemma skipped_no_fetch:
  "shouldSkip (pathname (url request)) \<Longrightarrow>
   fst (resolveLinkAndLogAnalytics env request) = [] \<and>
   Continue (snd (resolveLinkAndLogAnalytics env request))"
  by (simp add: resolveLinkAndLogAnalytics_def Continue_def)

text \<open>
  C6. A request whose path is \<open>/\<close>, or starts with \<open>/api/\<close>, \<open>/dashboard\<close>, \<open>/_next/\<close>
  or \<open>/cloaked/\<close>, or ends with \<open>.png\<close> or \<open>.ico\<close>, or has a second slash after the
  leading one (more than one segment below the root), is passed through, and no request
  to the resolver is issued; this on every platform.
\<close>

theorem skipped_paths_pass_through:
  assumes "p = pathname (url request)"
    and "p = ''/'' \<or> (\<exists>r. p = ''/api/'' @ r) \<or> (\<exists>r. p = ''/dashboard'' @ r) \<or>
         (\<exists>r. p = ''/_next/'' @ r) \<or> (\<exists>r. p = ''/cloaked/'' @ r) \<or>
         (\<exists>r. p = r @ ''.png'') \<or> (\<exists>r. p = r @ ''.ico'') \<or>
         (\<exists>a b. p = ''/'' @ a @ ''/'' @ b)"
  shows "fst (resolveLinkAndLogAnalytics env request) = [] \<and>
         Continue (snd (resolveLinkAndLogAnalytics env request))"
proof -
  have "shouldSkip p"
    using assms(2) unfolding shouldSkip_def startsWith_iff endsWith_iff
    by (auto simp: length_split)
  then show ?thesis using assms(1) skipped_no_fetch by simp
qed

theorem skipped_paths_pass_through_witness:
  "fst (resolveLinkAndLogAnalytics (examplePlatform Rejected)
          (exampleRequest ''ishortn.ink'' [''api'', ''link''] [] [])) = [] \<and>
   Continue (snd (resolveLinkAndLogAnalytics (examplePlatform Rejected)
          (exampleRequest ''ishortn.ink'' [''api'', ''link''] [] [])))"
proof -
  have p: "''/api/link'' = pathname (url (exampleRequest ''ishortn.ink'' [''api'', ''link''] [] []))"
    by (simp add: exampleRequest_def pathname_def)
  have "\<exists>r. ''/api/link'' = ''/api/'' @ r" by simp
  then show ?thesis
    using skipped_paths_pass_through [OF p, of "examplePlatform Rejected"] by blast
qed

text \<open>
  C10. A path \<open>/seg/\<close> of one segment and a trailing slash splits at the slashes
  into three parts, the last one empty; it counts as nested, so the request is passed
  through and no request to the resolver is issued.
\<close>

theorem trailing_slash_is_nested:
  assumes "CHR ''/'' \<notin> set seg" and "pathname (url request) = ''/'' @ seg @ ''/''"
  shows "split CHR ''/'' (pathname (url request)) = [[], seg, []] \<and>
         fst (resolveLinkAndLogAnalytics env request) = [] \<and>
         Continue (snd (resolveLinkAndLogAnalytics env request))"
proof -
  have parts: "split CHR ''/'' (pathname (url request)) = [[], seg, []]"
    using assms split_trailing by simp
  then have "shouldSkip (pathname (url request))" by (simp add: shouldSkip_def)
  then show ?thesis using parts skipped_no_fetch by simp
qed

theorem trailing_slash_is_nested_witness:
  "split CHR ''/'' (pathname (url (exampleRequest ''ishortn.ink'' [''abc'', []] [] [])))
     = [[], ''abc'', []] \<and>
   fst (resolveLinkAndLogAnalytics (examplePlatform Rejected)
          (exampleRequest ''ishortn.ink'' [''abc'', []] [] [])) = [] \<and>
   Continue (snd (resolveLinkAndLogAnalytics (examplePlatform Rejected)
          (exampleRequest ''ishortn.ink'' [''abc'', []] [] [])))"
proof -
  have seg: "CHR ''/'' \<notin> set ''abc''" by simp
  have p: "pathname (url (exampleRequest ''ishortn.ink'' [''abc'', []] [] []))
             = ''/'' @ ''abc'' @ ''/''"
    by (simp add: exampleRequest_def pathname_def)
  show ?thesis
    using trailing_slash_is_nested [OF seg p, of "examplePlatform Rejected"] by simp
qed

subsection \<open>Client context\<close>




text \<open>
  The \<open>geo\<close> parameter, when it is set and not empty, is the derived country on every
  host: the handler does not look at \<open>isLocalhost\<close> before it takes the parameter.
\<close>

lemma geo_parameter_wins:
  assumes "map_of (searchParams request) ''geo'' = Some g" and "g \<noteq> []"
  shows "ctx_country (clientContext env request) = g"
  using assms by (simp add: clientContext_def Let_def or_else_def)

text \<open>
  C4. The request \<open>https://ishortn.ink/abc?geo=US\<close> with the header
  \<open>cf-ipcountry: FR\<close>: the host is not a loopback host and the headers give the country
  FR, yet the derived country is US. The claim says the parameter has no effect there.
\<close>

theorem geo_parameter_on_public_host:
  "\<not> isLocalhost (host (url (exampleRequest ''ishortn.ink'' [''abc''] [(''geo'', ''US'')]
        [(''cf-ipcountry'', ''FR'')]))) \<and>
   country (getGeolocation (exampleRequest ''ishortn.ink'' [''abc''] [(''geo'', ''US'')]
        [(''cf-ipcountry'', ''FR'')])) = Some ''FR'' \<and>
   ctx_country (clientContext (examplePlatform Rejected)
     (exampleRequest ''ishortn.ink'' [''abc''] [(''geo'', ''US'')]
        [(''cf-ipcountry'', ''FR'')])) = ''US''"
  by code_simp

text \<open>Without any of the three headers there is no IP address.\<close>

lemma no_headers_no_ip:
  assumes "headers request ''x-forwarded-for'' = None"
    and "headers request ''x-real-ip'' = None"
    and "headers request ''cf-connecting-ip'' = None"
  shows "getIpAddress request = None"
  using assms by (simp add: getIpAddress_def)

lemma encodeURI_append: "encodeURI (a @ b) = encodeURI a @ encodeURI b"
  by (simp add: encodeURI_def)

lemma encodeURI_tail:
  "\<exists>front. encodeURI (a @ b @ c @ d @ e @ f @ g @ h @ i @ j @ k @ ''&ip='' @ ''undefined'')
     = front @ ''&ip=undefined''"
proof -
  have tail: "encodeURI ''&ip=undefined'' = ''&ip=undefined''" by code_simp
  have "a @ b @ c @ d @ e @ f @ g @ h @ i @ j @ k @ ''&ip='' @ ''undefined''
      = (a @ b @ c @ d @ e @ f @ g @ h @ i @ j @ k) @ ''&ip=undefined''"
    by simp
  then have "encodeURI (a @ b @ c @ d @ e @ f @ g @ h @ i @ j @ k @ ''&ip='' @ ''undefined'')
      = encodeURI (a @ b @ c @ d @ e @ f @ g @ h @ i @ j @ k) @ ''&ip=undefined''"
    using encodeURI_append [of "a @ b @ c @ d @ e @ f @ g @ h @ i @ j @ k" "''&ip=undefined''"]
      tail by simp
  then show ?thesis by blast
qed

text \<open>The outbound URL then ends in the printed name of \<open>undefined\<close>.\<close>

lemma no_ip_is_sent_as_undefined:
  assumes "getIpAddress request = None"
  shows "\<exists>front. fetch_url (resolverRequest env request) = front @ ''&ip=undefined''"
proof -
  have ip: "ctx_ip (clientContext env request) = None"
    using assms by (simp add: clientContext_def Let_def)
  have sent: "fetch_url (resolverRequest env request) =
      encodeURI (internalOrigin env request @ ''/api/link?domain='' @ host (url request) @
        ''&alias='' @ pathname (url request) @
        ''&country='' @ ctx_country (clientContext env request) @
        ''&city='' @ ctx_city (clientContext env request) @
        ''&continent='' @ ctx_continent (clientContext env request) @
        ''&ip='' @ ''undefined'')"
    unfolding resolverRequest_def Let_def ip
    by (simp only: fetch_request.select_convs interpolate.simps)
  show ?thesis unfolding sent by (rule encodeURI_tail)
qed

text \<open>
  C7. The request \<open>https://ishortn.ink/abc\<close> without headers: the derived IP is
  undefined, as the claim says, and the one outbound request has the query parameter
  \<open>ip=undefined\<close>, where the claim says that the parameter is empty.
\<close>

theorem absent_ip_in_resolver_url:
  "getIpAddress aliasRequest = None \<and>
   map fetch_url (fst (resolveLinkAndLogAnalytics (examplePlatform Rejected) aliasRequest)) =
     [''https://ishortn.ink/api/link?domain=ishortn.ink&alias=/abc&country=Unknown&city=Unknown&continent=Unknown&ip=undefined'']"
  by code_simp

subsection \<open>The resolver's answer\<close>

lemma handler_cases:
  "resolveLinkAndLogAnalytics env request = ([], Inr None) \<or>
   resolveLinkAndLogAnalytics env request = ([], Inr (Some Next)) \<or>
   resolveLinkAndLogAnalytics env request =
     ([resolverRequest env request],
      dispatch env request (fetch env (resolverRequest env request)))"
  by (simp add: resolveLinkAndLogAnalytics_def Let_def)

text \<open>
  A rejected fetch and a body that is not JSON are thrown on; only a status outside
  200 to 299 is passed through.
\<close>

lemma dispatch_failures:
  "dispatch env request Rejected = Inl FetchFailed"
  "dispatch env request (Response status NotJson) =
     (if ok status then Inl JsonSyntaxError else Inr (Some Next))"
  by (simp_all add: dispatch_def)

text \<open>
  C1. The request \<open>https://ishortn.ink/abc\<close>: when the fetch fails the handler throws,
  when the resolver answers 200 with a body that is not JSON the handler throws, when it
  answers 503 the request is passed through. The claim says all three are passed through.
\<close>

theorem resolver_failures:
  "snd (resolveLinkAndLogAnalytics (examplePlatform Rejected) aliasRequest)
     = Inl FetchFailed \<and>
   snd (resolveLinkAndLogAnalytics (examplePlatform (Response 200 NotJson)) aliasRequest)
     = Inl JsonSyntaxError \<and>
   snd (resolveLinkAndLogAnalytics (examplePlatform (Response 503 NotJson)) aliasRequest)
     = Inr (Some Next)"
  by code_simp

lemma protocol_eq: "protocol u = s @ '':'' \<longleftrightarrow> url_scheme u = s"
  by (simp add: protocol_def)

lemma protocol_http: "protocol u = ''http:'' \<longleftrightarrow> url_scheme u = ''http''"
  using protocol_eq [of u "''http''"] by simp

lemma protocol_https: "protocol u = ''https:'' \<longleftrightarrow> url_scheme u = ''https''"
  using protocol_eq [of u "''https''"] by simp

lemma respond_cases:
  assumes "respond env request data t = Inr (Some dest)"
  shows "dest = Redirect t \<or>
         (\<exists>u. new_URL env (''/cloaked/'' @ encodeURIComponent t) (Some (url request)) = Some u \<and>
              dest = Rewrite u)"
  using assms by (auto simp: respond_def Let_def split: option.splits if_splits)

text \<open>A target whose scheme is neither \<open>http\<close> nor \<open>https\<close> is not followed.\<close>

lemma dispatch_unsafe:
  assumes "data_url data = Some target"
    and "new_URL env target (Some (url request)) = Some parsedUrl"
    and "url_scheme parsedUrl \<noteq> ''http''" and "url_scheme parsedUrl \<noteq> ''https''"
  shows "dispatch env request (Response status (Json data)) = Inr (Some Next)"
  using assms
  by (cases "target = []") (simp_all add: dispatch_def Let_def protocol_http protocol_https)

text \<open>A redirect or a rewrite comes from a target that was parsed and whose scheme passed.\<close>

lemma dispatch_validated:
  assumes "dispatch env request answer = Inr (Some dest)" and "dest \<noteq> Next"
  shows "\<exists>status data target v.
           answer = Response status (Json data) \<and> data_url data = Some target \<and>
           (new_URL env target (Some (url request)) = Some v \<and>
              (url_scheme v = ''http'' \<or> url_scheme v = ''https'')
            \<or> new_URL env target (Some (url request)) = None \<and>
              new_URL env (''https://'' @ target) None = Some v \<and> url_scheme v = ''https'') \<and>
           (dest = Redirect (href v) \<or>
            (\<exists>u. new_URL env (''/cloaked/'' @ encodeURIComponent (href v)) (Some (url request))
                   = Some u \<and> dest = Rewrite u))"
proof (cases answer)
  case Rejected
  then show ?thesis using assms by (simp add: dispatch_def)
next
  case (Response status b)
  show ?thesis
  proof (cases b)
    case NotJson
    then show ?thesis using assms Response by (simp add: dispatch_def split: if_splits)
  next
    case (Json data)
    from assms Response Json have okst: "ok status"
      by (auto simp: dispatch_def split: if_splits)
    from assms Response Json okst obtain target
      where t: "data_url data = Some target" "target \<noteq> []"
      by (cases "data_url data") (auto simp: dispatch_def split: if_splits)
    show ?thesis
    proof (cases "new_URL env target (Some (url request))")
      case (Some v)
      with assms Response Json okst t
      have sch: "url_scheme v = ''http'' \<or> url_scheme v = ''https''"
        and r: "respond env request data (href v) = Inr (Some dest)"
        by (auto simp: dispatch_def Let_def protocol_http protocol_https split: if_splits)
      from respond_cases [OF r] Some sch t Response Json show ?thesis by blast
    next
      case None
      show ?thesis
      proof (cases "new_URL env (''https://'' @ target) None")
        case none: None
        with assms Response Json okst t None show ?thesis
          by (auto simp: dispatch_def Let_def split: if_splits)
      next
        case (Some v)
        with assms Response Json okst t None
        have sch: "url_scheme v = ''https''"
          and r: "respond env request data (href v) = Inr (Some dest)"
          by (auto simp: dispatch_def Let_def protocol_https split: if_splits)
        from respond_cases [OF r] Some None sch t Response Json show ?thesis by blast
      qed
    qed
  qed
qed

text \<open>
  C2. When the resolver's \<open>url\<close> parses, against the request URL, to a URL whose scheme
  is neither \<open>http\<close> nor \<open>https\<close>, the request is passed through. And when the handler
  answers with a redirect or a rewrite, the resolver's \<open>url\<close> was parsed to a URL \<open>v\<close> whose
  scheme is \<open>http\<close> or \<open>https\<close> (or, the first parse failing, \<open>https://\<close> before it was
  parsed to \<open>v\<close> with scheme \<open>https\<close>), the redirect goes to \<open>v\<close> and the rewrite to the
  cloak route of \<open>v\<close>. This on every platform, so for every URL parser.
\<close>

theorem only_http_and_https_are_followed:
  "(\<forall>status data target parsedUrl.
      fetch env (resolverRequest env request) = Response status (Json data) \<and>
      data_url data = Some target \<and>
      new_URL env target (Some (url request)) = Some parsedUrl \<and>
      url_scheme parsedUrl \<noteq> ''http'' \<and> url_scheme parsedUrl \<noteq> ''https''
      \<longrightarrow> Continue (snd (resolveLinkAndLogAnalytics env request))) \<and>
   (\<forall>dest.
      snd (resolveLinkAndLogAnalytics env request) = Inr (Some dest) \<and> dest \<noteq> Next
      \<longrightarrow> (\<exists>status data target v.
             fetch env (resolverRequest env request) = Response status (Json data) \<and>
             data_url data = Some target \<and>
             (new_URL env target (Some (url request)) = Some v \<and>
                (url_scheme v = ''http'' \<or> url_scheme v = ''https'')
              \<or> new_URL env target (Some (url request)) = None \<and>
                new_URL env (''https://'' @ target) None = Some v \<and>
                url_scheme v = ''https'') \<and>
             (dest = Redirect (href v) \<or>
              (\<exists>u. new_URL env (''/cloaked/'' @ encodeURIComponent (href v))
                       (Some (url request)) = Some u \<and> dest = Rewrite u))))"
proof (intro conjI allI impI)
  fix status data target parsedUrl
  assume "fetch env (resolverRequest env request) = Response status (Json data) \<and>
      data_url data = Some target \<and>
      new_URL env target (Some (url request)) = Some parsedUrl \<and>
      url_scheme parsedUrl \<noteq> ''http'' \<and> url_scheme parsedUrl \<noteq> ''https''"
  then have "dispatch env request (fetch env (resolverRequest env request)) = Inr (Some Next)"
    using dispatch_unsafe by simp
  then show "Continue (snd (resolveLinkAndLogAnalytics env request))"
    using handler_cases [of env request] by (auto simp: Continue_def)
next
  fix dest
  assume h: "snd (resolveLinkAndLogAnalytics env request) = Inr (Some dest) \<and> dest \<noteq> Next"
  then have "dispatch env request (fetch env (resolverRequest env request)) = Inr (Some dest)"
    using handler_cases [of env request] by auto
  from dispatch_validated [OF this] h
  show "\<exists>status data target v.
             fetch env (resolverRequest env request) = Response status (Json data) \<and>
             data_url data = Some target \<and>
             (new_URL env target (Some (url request)) = Some v \<and>
                (url_scheme v = ''http'' \<or> url_scheme v = ''https'')
              \<or> new_URL env target (Some (url request)) = None \<and>
                new_URL env (''https://'' @ target) None = Some v \<and>
                url_scheme v = ''https'') \<and>
             (dest = Redirect (href v) \<or>
              (\<exists>u. new_URL env (''/cloaked/'' @ encodeURIComponent (href v))
                       (Some (url request)) = Some u \<and> dest = Rewrite u))"
    by blast
qed

lemma platform_fields:
  "new_URL (answering data) = parseURL"
  "fetch (answering data) call = Response 200 (Json data)"
  by (simp_all add: answering_def examplePlatform_def)

theorem only_http_and_https_are_followed_witness:
  "Continue (snd (resolveLinkAndLogAnalytics
      (answering \<lparr> data_url = Some ''javascript:alert(1)'', cloaking = Some True \<rparr>)
      aliasRequest)) \<and>
   (\<exists>status data target v.
      fetch (answering \<lparr> data_url = Some ''https://example.com/page'', cloaking = None \<rparr>)
        (resolverRequest
          (answering \<lparr> data_url = Some ''https://example.com/page'', cloaking = None \<rparr>)
          aliasRequest) = Response status (Json data) \<and>
      data_url data = Some target \<and>
      (parseURL target (Some (url aliasRequest)) = Some v \<and>
         (url_scheme v = ''http'' \<or> url_scheme v = ''https'')
       \<or> parseURL target (Some (url aliasRequest)) = None \<and>
         parseURL (''https://'' @ target) None = Some v \<and> url_scheme v = ''https'') \<and>
      (Redirect ''https://example.com/page'' = Redirect (href v) \<or>
       (\<exists>u. parseURL (''/cloaked/'' @ encodeURIComponent (href v)) (Some (url aliasRequest))
              = Some u \<and> Redirect ''https://example.com/page'' = Rewrite u)))"
proof -
  let ?script = "\<lparr> data_url = Some ''javascript:alert(1)'', cloaking = Some True \<rparr>"
  let ?page = "\<lparr> data_url = Some ''https://example.com/page'', cloaking = None \<rparr>"
  have parsed: "parseURL ''javascript:alert(1)'' (Some (url aliasRequest)) =
      Some \<lparr> url_scheme = ''javascript'', url_username = [], url_password = [],
             url_host = None, url_port = None, url_path = Opaque ''alert(1)'',
             url_query = None, url_fragment = None \<rparr>"
    by code_simp
  have first: "Continue (snd (resolveLinkAndLogAnalytics (answering ?script) aliasRequest))"
    using only_http_and_https_are_followed [of "answering ?script" aliasRequest,
        THEN conjunct1, rule_format,
        of 200 ?script "''javascript:alert(1)''"] parsed
    by (simp add: platform_fields)
  have followed: "snd (resolveLinkAndLogAnalytics (answering ?page) aliasRequest)
      = Inr (Some (Redirect ''https://example.com/page''))"
    by code_simp
  have second: "\<exists>status data target v.
      fetch (answering ?page) (resolverRequest (answering ?page) aliasRequest)
        = Response status (Json data) \<and>
      data_url data = Some target \<and>
      (new_URL (answering ?page) target (Some (url aliasRequest)) = Some v \<and>
         (url_scheme v = ''http'' \<or> url_scheme v = ''https'')
       \<or> new_URL (answering ?page) target (Some (url aliasRequest)) = None \<and>
         new_URL (answering ?page) (''https://'' @ target) None = Some v \<and>
         url_scheme v = ''https'') \<and>
      (Redirect ''https://example.com/page'' = Redirect (href v) \<or>
       (\<exists>u. new_URL (answering ?page) (''/cloaked/'' @ encodeURIComponent (href v))
              (Some (url aliasRequest)) = Some u \<and>
            Redirect ''https://example.com/page'' = Rewrite u))"
    using only_http_and_https_are_followed [of "answering ?page" aliasRequest,
        THEN conjunct2, rule_format, of "Redirect ''https://example.com/page''"] followed
    by simp
  from first second show ?thesis by (simp only: platform_fields)
qed

subsection \<open>Targets without a scheme, and cloaking\<close>

text \<open>
  Against a base with a path of segments, an input without a scheme is a relative
  reference: the parser does not fail, it replaces the last segment of the base's path.
\<close>

lemma schemeless_target_is_relative:
  assumes "url_path b = Segments segs"
    and "url_scheme b = ''https'' \<or> url_scheme b = ''http''"
  shows "parseURL ''example.com/page'' (Some b) =
     Some (b \<lparr> url_path := Segments (butlast segs @ [''example.com'', ''page'']),
               url_query := None, url_fragment := None \<rparr>)"
proof -
  have pre: "preprocess ''example.com/page'' = ''example.com/page''" by code_simp
  have noScheme: "takeScheme ''example.com/page'' = None" by code_simp
  have special: "isSpecial (url_scheme b)" using assms(2) by (auto simp: isSpecial_def)
  have notFile: "url_scheme b \<noteq> ''file''" using assms(2) by auto
  have parts: "map (encodeWith pathSet)
      (pieces (isSlash True) (takeWhile notQueryOrFragment ''example.com/page''))
      = [''example.com'', ''page'']"
    by code_simp
  have dots: "\<not> doubleDot ''example.com''" "\<not> singleDot ''example.com''"
    "\<not> doubleDot ''page''" "\<not> singleDot ''page''"
    by code_simp+
  have path: "segmentsOf True (butlast segs) ''example.com/page''
      = butlast segs @ [''example.com'', ''page'']"
    unfolding segmentsOf_def parts using dots by simp
  have after: "queryState True (dropWhile notQueryOrFragment ''example.com/page'') = (None, None)"
    by code_simp
  have first: "\<not> isSlash True CHR ''e''" by code_simp
  have "relativeState b ''example.com/page'' =
     Some (b \<lparr> url_path := Segments (butlast segs @ [''example.com'', ''page'']),
               url_query := None, url_fragment := None \<rparr>)"
    unfolding relativeState_def Let_def using special assms(1) path after first by simp
  then show ?thesis
    unfolding parseURL_def pre Let_def noScheme using assms(1) notFile by simp
qed

text \<open>
  C3. The request \<open>https://ishortn.ink/abc\<close> and the resolver's answer
  \<open>{"url": "example.com/page"}\<close>: the first parse, against the request URL, does not
  fail, so \<open>https://\<close> is never put before the target, and the redirect goes to
  \<open>https://ishortn.ink/example.com/page\<close>. The claim says that the parse fails and that
  the redirect goes to \<open>https://example.com/page\<close>.
\<close>

theorem schemeless_target_redirect:
  "parseURL ''example.com/page'' (Some (url aliasRequest)) \<noteq> None \<and>
   snd (resolveLinkAndLogAnalytics
      (answering \<lparr> data_url = Some ''example.com/page'', cloaking = None \<rparr>) aliasRequest)
     = Inr (Some (Redirect ''https://ishortn.ink/example.com/page''))"
  by code_simp

lemma absolute_target_parse:
  "parseURL ''https://example.com'' b =
     Some \<lparr> url_scheme = ''https'', url_username = [], url_password = [],
            url_host = Some ''example.com'', url_port = None, url_path = Segments [[]],
            url_query = None, url_fragment = None \<rparr>"
proof -
  have pre: "preprocess ''https://example.com'' = ''https://example.com''" by code_simp
  have scheme: "takeScheme ''https://example.com'' = Some (''https'', ''//example.com'')"
    by code_simp
  have authority: "authorityState ''https'' (dropWhile (isSlash True) ''//example.com'') =
      Some \<lparr> url_scheme = ''https'', url_username = [], url_password = [],
             url_host = Some ''example.com'', url_port = None, url_path = Segments [[]],
             url_query = None, url_fragment = None \<rparr>"
    by code_simp
  have special: "isSpecial ''https''" by code_simp
  have slashes: "startsWith ''//example.com'' ''//''" by code_simp
  show ?thesis
    unfolding parseURL_def pre Let_def scheme using authority special slashes
    by (simp split: option.splits)
qed

lemma cloak_route_parse:
  assumes "url_path b = Segments segs"
    and "url_scheme b = ''https'' \<or> url_scheme b = ''http''"
  shows "parseURL ''/cloaked/https%3A%2F%2Fexample.com%2F'' (Some b) =
     Some (b \<lparr> url_path := Segments [''cloaked'', ''https%3A%2F%2Fexample.com%2F''],
               url_query := None, url_fragment := None \<rparr>)"
proof -
  have pre: "preprocess ''/cloaked/https%3A%2F%2Fexample.com%2F''
      = ''/cloaked/https%3A%2F%2Fexample.com%2F''"
    by code_simp
  have noScheme: "takeScheme ''/cloaked/https%3A%2F%2Fexample.com%2F'' = None" by code_simp
  have special: "isSpecial (url_scheme b)" using assms(2) by (auto simp: isSpecial_def)
  have notFile: "url_scheme b \<noteq> ''file''" using assms(2) by auto
  have path: "segmentsOf True [] ''cloaked/https%3A%2F%2Fexample.com%2F''
      = [''cloaked'', ''https%3A%2F%2Fexample.com%2F'']"
    by code_simp
  have after: "queryState True
      (dropWhile notQueryOrFragment ''/cloaked/https%3A%2F%2Fexample.com%2F'') = (None, None)"
    by code_simp
  have slashes: "isSlash True CHR ''/''" "\<not> isSlash True CHR ''c''" by code_simp+
  have "relativeState b ''/cloaked/https%3A%2F%2Fexample.com%2F'' =
     Some (b \<lparr> url_path := Segments [''cloaked'', ''https%3A%2F%2Fexample.com%2F''],
               url_query := None, url_fragment := None \<rparr>)"
    unfolding relativeState_def Let_def using special path after slashes by simp
  then show ?thesis
    unfolding parseURL_def pre Let_def noScheme using assms(1) notFile by simp
qed

text \<open>
  C5, as the claim states it, fails: for the request \<open>https://ishortn.ink/abc\<close> and the
  answer \<open>{"url": "https://example.com", "cloaking": true}\<close> the path of the rewrite is
  not \<open>/cloaked/https%3A%2F%2Fexample.com\<close>.
\<close>

theorem cloaked_path_counterexample:
  "rewritePath (snd (resolveLinkAndLogAnalytics
      (answering \<lparr> data_url = Some ''https://example.com'', cloaking = Some True \<rparr>)
      aliasRequest))
   \<noteq> Some ''/cloaked/https%3A%2F%2Fexample.com''"
  by code_simp

text \<open>
  C5, amended. For the answer \<open>{"url": "https://example.com", "cloaking": true}\<close> to a
  request with an \<open>http\<close> or \<open>https\<close> URL for which the resolver was called, the parser
  being the one modelled above: the validated URL is serialised with its root path, as
  \<open>https://example.com/\<close>, and the decision is a rewrite to the request's own origin
  with the path \<open>/cloaked/https%3A%2F%2Fexample.com%2F\<close>, which is \<open>/cloaked/\<close> and that
  serialisation percent-encoded as one segment.
\<close>

theorem cloaked_rewrite_path:
  assumes "new_URL env = parseURL"
    and "fst (resolveLinkAndLogAnalytics env request) \<noteq> []"
    and "fetch env (resolverRequest env request) = Response status
           (Json \<lparr> data_url = Some ''https://example.com'', cloaking = Some True \<rparr>)"
    and "ok status"
    and "url_path (url request) = Segments segs"
    and "url_scheme (url request) = ''https'' \<or> url_scheme (url request) = ''http''"
  shows "snd (resolveLinkAndLogAnalytics env request) =
           Inr (Some (Rewrite ((url request)
             \<lparr> url_path := Segments [''cloaked'', ''https%3A%2F%2Fexample.com%2F''],
               url_query := None, url_fragment := None \<rparr>))) \<and>
         rewritePath (snd (resolveLinkAndLogAnalytics env request))
           = Some ''/cloaked/https%3A%2F%2Fexample.com%2F'' \<and>
         map_option href (parseURL ''https://example.com'' (Some (url request)))
           = Some ''https://example.com/'' \<and>
         ''/cloaked/https%3A%2F%2Fexample.com%2F''
           = ''/cloaked/'' @ encodeURIComponent ''https://example.com/''"
proof -
  let ?data = "\<lparr> data_url = Some ''https://example.com'', cloaking = Some True \<rparr>"
  let ?v = "\<lparr> url_scheme = ''https'', url_username = [], url_password = [],
             url_host = Some ''example.com'', url_port = None, url_path = Segments [[]],
             url_query = None, url_fragment = None \<rparr>"
  let ?u = "(url request)
             \<lparr> url_path := Segments [''cloaked'', ''https%3A%2F%2Fexample.com%2F''],
               url_query := None, url_fragment := None \<rparr>"
  have serialised: "href ?v = ''https://example.com/''" by code_simp
  have scheme: "protocol ?v = ''https:''" by code_simp
  have encoded: "encodeURIComponent ''https://example.com/'' = ''https%3A%2F%2Fexample.com%2F''"
    by code_simp
  have "respond env request ?data ''https://example.com/'' = Inr (Some (Rewrite ?u))"
    unfolding respond_def Let_def encoded assms(1)
    using cloak_route_parse [OF assms(5) assms(6)] by simp
  then have "dispatch env request (Response status (Json ?data)) = Inr (Some (Rewrite ?u))"
    unfolding dispatch_def Let_def assms(1)
    using assms(4) absolute_target_parse [of "Some (url request)"] serialised scheme by simp
  moreover have "snd (resolveLinkAndLogAnalytics env request) =
      dispatch env request (fetch env (resolverRequest env request))"
    using handler_cases [of env request] assms(2) by auto
  ultimately have decision: "snd (resolveLinkAndLogAnalytics env request)
      = Inr (Some (Rewrite ?u))"
    using assms(3) by simp
  have "pathname ?u = ''/cloaked/https%3A%2F%2Fexample.com%2F''"
    by (simp add: pathname_def)
  with decision serialised encoded absolute_target_parse [of "Some (url request)"]
  show ?thesis by simp
qed

theorem cloaked_rewrite_path_witness:
  "snd (resolveLinkAndLogAnalytics
      (answering \<lparr> data_url = Some ''https://example.com'', cloaking = Some True \<rparr>)
      aliasRequest) =
     Inr (Some (Rewrite ((url aliasRequest)
       \<lparr> url_path := Segments [''cloaked'', ''https%3A%2F%2Fexample.com%2F''],
         url_query := None, url_fragment := None \<rparr>))) \<and>
   rewritePath (snd (resolveLinkAndLogAnalytics
      (answering \<lparr> data_url = Some ''https://example.com'', cloaking = Some True \<rparr>)
      aliasRequest))
     = Some ''/cloaked/https%3A%2F%2Fexample.com%2F'' \<and>
   map_option href (parseURL ''https://example.com'' (Some (url aliasRequest)))
     = Some ''https://example.com/'' \<and>
   ''/cloaked/https%3A%2F%2Fexample.com%2F''
     = ''/cloaked/'' @ encodeURIComponent ''https://example.com/''"
proof -
  let ?env = "answering \<lparr> data_url = Some ''https://example.com'', cloaking = Some True \<rparr>"
  have parser: "new_URL ?env = parseURL" by (simp add: platform_fields)
  have called: "fst (resolveLinkAndLogAnalytics ?env aliasRequest) \<noteq> []" by code_simp
  have answer: "fetch ?env (resolverRequest ?env aliasRequest) = Response 200
      (Json \<lparr> data_url = Some ''https://example.com'', cloaking = Some True \<rparr>)"
    by (simp add: platform_fields)
  have status: "ok 200" by (simp add: ok_def)
  have path: "url_path (url aliasRequest) = Segments [''abc'']"
    by (simp add: aliasRequest_def exampleRequest_def)
  have scheme: "url_scheme (url aliasRequest) = ''https'' \<or>
      url_scheme (url aliasRequest) = ''http''"
    by (simp add: aliasRequest_def exampleRequest_def)
  show ?thesis
    by (rule cloaked_rewrite_path [OF parser called answer status path scheme])
qed

subsection \<open>The database singletons\<close>

lemma getConnection_step:
  assumes "consistent m" and "getConnection u m = (c, m')"
  shows "c = 0 \<and> consistent m' \<and> the_connection m' = Some 0 \<and>
         pools m' = poolsAfter u m [a] \<and>
         clients m' = clients m \<and> the_db m' = the_db m"
  using assms
  by (auto simp: consistent_def getConnection_def poolsAfter_def Let_def split: option.splits)

lemma getDb_step:
  assumes "consistent m" and "getDb u m = (d, m')"
  shows "d = 0 \<and> consistent m' \<and> the_db m' = Some 0 \<and> the_connection m' = Some 0 \<and>
         pools m' = poolsAfter u m [a] \<and> clients m' = [0]"
proof (cases "the_db m")
  case None
  obtain c m1 where g: "getConnection u m = (c, m1)" by (cases "getConnection u m")
  from getConnection_step [OF assms(1) g, of a]
  have s: "c = 0" "consistent m1" "the_connection m1 = Some 0"
    "pools m1 = poolsAfter u m [a]" "clients m1 = clients m" "the_db m1 = the_db m"
    by simp_all
  from assms(1) None have "clients m = []" by (auto simp: consistent_def)
  with assms(2) None g s show ?thesis
    by (auto simp: getDb_def Let_def consistent_def poolsAfter_def)
next
  case (Some d')
  with assms show ?thesis
    by (auto simp: getDb_def consistent_def poolsAfter_def)
qed

lemma proxyGet_step:
  assumes "consistent m" and "proxyGet u a m = (seen, m')"
  shows "seen = expected a \<and> consistent m' \<and> the_connection m' = Some 0 \<and>
         pools m' = poolsAfter u m [a] \<and> clients m' = clientsAfter m [a] \<and>
         (the_db m' = Some 0 \<longleftrightarrow> isDbGet a \<or> the_db m = Some 0)"
proof (cases a)
  case (ConnectionGet name)
  obtain c m1 where g: "getConnection u m = (c, m1)" by (cases "getConnection u m")
  from getConnection_step [OF assms(1) g, of a] assms ConnectionGet g
  show ?thesis
    by (auto simp: expected_def clientsAfter_def isDbGet_def consistent_def)
next
  case (DbGet name)
  obtain d m1 where g: "getDb u m = (d, m1)" by (cases "getDb u m")
  from getDb_step [OF assms(1) g, of a] assms DbGet g
  show ?thesis
    by (auto simp: expected_def clientsAfter_def isDbGet_def poolsAfter_def)
qed

text \<open>Any number of reads, from any state the module can reach.\<close>

lemma run_consistent:
  assumes "consistent m" and "run u as m = (seen, m')"
  shows "seen = map expected as \<and> consistent m' \<and>
         pools m' = poolsAfter u m as \<and>
         clients m' = (if as = [] then clients m else clientsAfter m as)"
  using assms
proof (induction as arbitrary: m seen m')
  case Nil
  then show ?case by (simp add: poolsAfter_def)
next
  case (Cons a as)
  obtain s1 m1 where p: "proxyGet u a m = (s1, m1)" by (cases "proxyGet u a m")
  obtain rest m2 where r: "run u as m1 = (rest, m2)" by (cases "run u as m1")
  from Cons.prems(2) p r have eq: "seen = s1 # rest" "m' = m2" by simp_all
  from proxyGet_step [OF Cons.prems(1) p]
  have s: "s1 = expected a" "consistent m1" "the_connection m1 = Some 0"
    "pools m1 = poolsAfter u m [a]" "clients m1 = clientsAfter m [a]"
    "the_db m1 = Some 0 \<longleftrightarrow> isDbGet a \<or> the_db m = Some 0"
    by simp_all
  from Cons.IH [OF s(2) r]
  have ih: "rest = map expected as" "consistent m2" "pools m2 = poolsAfter u m1 as"
    "clients m2 = (if as = [] then clients m1 else clientsAfter m1 as)"
    by simp_all
  from s ih eq show ?case
    by (auto simp: poolsAfter_def clientsAfter_def)
qed

lemma initial_consistent: "consistent initial"
  by (simp add: consistent_def initial_def)

text \<open>
  C9. At load there is neither a pool nor a client. After any sequence of reads of the
  exported \<open>connection\<close> and \<open>db\<close>: there is no pool when nothing was read and one pool
  otherwise; there is no client when \<open>db\<close> was not read and one client, made from that
  pool, otherwise; every read of \<open>connection\<close> saw that pool and every read of \<open>db\<close> that
  client.
\<close>

theorem singletons_are_created_once:
  assumes "run DATABASE_URL accesses initial = (seen, m)"
  shows "pools initial = [] \<and> clients initial = [] \<and>
         pools m = (if accesses = [] then []
                    else [\<lparr> uri = DATABASE_URL, connectionLimit = 20 \<rparr>]) \<and>
         clients m = (if list_ex isDbGet accesses then [0] else []) \<and>
         seen = map (\<lambda>a. case a of ConnectionGet _ \<Rightarrow> PoolInstance 0
                               | DbGet _ \<Rightarrow> ClientInstance 0) accesses"
proof -
  have e: "expected = (\<lambda>a. case a of ConnectionGet _ \<Rightarrow> PoolInstance 0
                                  | DbGet _ \<Rightarrow> ClientInstance 0)"
    by (rule ext) (simp add: expected_def)
  from run_consistent [OF initial_consistent assms]
  show ?thesis unfolding e
    by (auto simp: poolsAfter_def clientsAfter_def initial_def)
qed

theorem singletons_are_created_once_witness:
  "pools initial = [] \<and> clients initial = [] \<and>
   pools \<lparr> pools = [\<lparr> uri = ''mysql://db'', connectionLimit = 20 \<rparr>], clients = [0],
           the_connection = Some 0, the_db = Some 0 \<rparr>
     = (if [DbGet ''select'', ConnectionGet ''end'', DbGet ''insert''] = [] then []
        else [\<lparr> uri = ''mysql://db'', connectionLimit = 20 \<rparr>]) \<and>
   clients \<lparr> pools = [\<lparr> uri = ''mysql://db'', connectionLimit = 20 \<rparr>], clients = [0],
             the_connection = Some 0, the_db = Some 0 \<rparr>
     = (if list_ex isDbGet [DbGet ''select'', ConnectionGet ''end'', DbGet ''insert'']
        then [0] else []) \<and>
   [ClientInstance 0, PoolInstance 0, ClientInstance 0]
     = map (\<lambda>a. case a of ConnectionGet _ \<Rightarrow> PoolInstance 0 | DbGet _ \<Rightarrow> ClientInstance 0)
         [DbGet ''select'', ConnectionGet ''end'', DbGet ''insert'']"
proof -
  have "run ''mysql://db'' [DbGet ''select'', ConnectionGet ''end'', DbGet ''insert''] initial
      = ([ClientInstance 0, PoolInstance 0, ClientInstance 0],
         \<lparr> pools = [\<lparr> uri = ''mysql://db'', connectionLimit = 20 \<rparr>], clients = [0],
           the_connection = Some 0, the_db = Some 0 \<rparr>)"
    by (simp add: initial_def getDb_def getConnection_def Let_def)
  then show ?thesis by (rule singletons_are_created_once)
qed

end
